theory Spec2Isabelle
  imports Main "HOL-Library.Word"
begin

section \<open>Python values\<close>

text \<open>
  A Python \<open>str\<close> is a sequence of Unicode code points: \<open>len\<close> and slicing count code
  points, and the failure notices of the agents start with the two code points U+26A0 U+FE0F.
  A string is therefore a list of code points, and \<open>lit\<close> embeds an ASCII literal.
\<close>

type_synonym str = "nat list"

definition lit :: "string \<Rightarrow> str" where
  "lit s = map of_char s"

text \<open>The values stored in a result dictionary: a string or \<open>None\<close>.\<close>

datatype pyval = Str str | PyNone

text \<open>Truth value of an object, as \<open>if response.run_id\<close> tests it.\<close>

fun truthy :: "pyval \<Rightarrow> bool" where
  "truthy (Str s) = (s \<noteq> [])"
| "truthy PyNone = False"

text \<open>\<open>str(v)\<close>, which is also what an f-string field \<open>{v}\<close> inserts.\<close>

fun py_str :: "pyval \<Rightarrow> str" where
  "py_str (Str s) = s"
| "py_str PyNone = lit ''None''"

text \<open>\<open>d.get(k, default)\<close> on a dictionary.\<close>

definition dict_get :: "('k \<rightharpoonup> 'v) \<Rightarrow> 'k \<Rightarrow> 'v \<Rightarrow> 'v" where
  "dict_get d k dflt = (case d k of None \<Rightarrow> dflt | Some v \<Rightarrow> v)"

text \<open>
  An object raised by a call: whether it is an instance of Python's class \<open>Exception\<close>,
  which is what a handler \<open>except Exception\<close> tests (\<open>KeyboardInterrupt\<close>, \<open>SystemExit\<close>
  and \<open>asyncio.CancelledError\<close> derive from \<open>BaseException\<close> only), the name of its
  class and the text \<open>str(e)\<close> gives.
\<close>

datatype exception = Raised (isinstance_Exception: bool) (cls: str) (message: str)

section \<open>The external generation service\<close>

text \<open>
  Each agent object holds an \<open>agno\<close> agent and awaits its \<open>arun(prompt)\<close>. The call either
  returns a response, of which the code reads \<open>content\<close> and \<open>run_id\<close>, or raises. The
  service is outside the repository: it is a parameter, and it has a state of its own
  that every call may read and change.
\<close>

datatype worker = Structure | Legal | Negotiation | Manager

record response =
  content :: pyval
  run_id :: pyval

type_synonym 's arun = "worker \<Rightarrow> str \<Rightarrow> 's \<Rightarrow> (exception + response) \<times> 's"

text \<open>The dictionary an agent returns, and the dictionary of the three phase-1 results.\<close>

type_synonym result = "str \<rightharpoonup> pyval"

type_synonym aggregated = "str \<rightharpoonup> result"

definition warning_sign :: str where
  "warning_sign = [0x26A0, 0xFE0F]"

section \<open>agents/contract\_agent.py, legal\_agent.py, negotiation\_agent.py\<close>

definition ContractStructureAgent_prompt :: "str \<Rightarrow> str" where
  "ContractStructureAgent_prompt contract_text =
     lit ''Analyze this contract's structure briefly:\<newline>\<newline>''
     @ take 8000 contract_text
     @ lit ''\<newline>\<newline>Provide a short, readable summary of the document structure.''"

definition ContractStructureAgent_analyze ::
  "'s arun \<Rightarrow> str \<Rightarrow> 's \<Rightarrow> (exception + result) \<times> 's" where
  "ContractStructureAgent_analyze arun contract_text \<sigma> =
     (let prompt = ContractStructureAgent_prompt contract_text in
      case arun Structure prompt \<sigma> of
        (Inr response, \<sigma>') \<Rightarrow>
          (Inr [lit ''agent'' \<mapsto> Str (lit ''Contract Structure Agent''),
                lit ''analysis_type'' \<mapsto> Str (lit ''structural''),
                lit ''content'' \<mapsto> content response,
                lit ''run_id'' \<mapsto>
                  (if truthy (run_id response) then Str (py_str (run_id response))
                   else PyNone)], \<sigma>')
      | (Inl e, \<sigma>') \<Rightarrow>
          (if isinstance_Exception e then
             (Inr [lit ''agent'' \<mapsto> Str (lit ''Contract Structure Agent''),
                   lit ''analysis_type'' \<mapsto> Str (lit ''structural''),
                   lit ''content'' \<mapsto>
                     Str (warning_sign @ lit '' Analysis failed: '' @ message e),
                   lit ''error'' \<mapsto> Str (message e)], \<sigma>')
           else (Inl e, \<sigma>')))"

definition LegalFrameworkAgent_prompt :: "str \<Rightarrow> str" where
  "LegalFrameworkAgent_prompt contract_text =
     lit ''Analyze this contract for legal risks briefly:\<newline>\<newline>''
     @ take 8000 contract_text
     @ lit ''\<newline>\<newline>Provide a short, readable summary of legal concerns.''"

definition LegalFrameworkAgent_analyze ::
  "'s arun \<Rightarrow> str \<Rightarrow> 's \<Rightarrow> (exception + result) \<times> 's" where
  "LegalFrameworkAgent_analyze arun contract_text \<sigma> =
     (let prompt = LegalFrameworkAgent_prompt contract_text in
      case arun Legal prompt \<sigma> of
        (Inr response, \<sigma>') \<Rightarrow>
          (Inr [lit ''agent'' \<mapsto> Str (lit ''Legal Framework Agent''),
                lit ''analysis_type'' \<mapsto> Str (lit ''legal''),
                lit ''content'' \<mapsto> content response,
                lit ''run_id'' \<mapsto>
                  (if truthy (run_id response) then Str (py_str (run_id response))
                   else PyNone)], \<sigma>')
      | (Inl e, \<sigma>') \<Rightarrow>
          (if isinstance_Exception e then
             (Inr [lit ''agent'' \<mapsto> Str (lit ''Legal Framework Agent''),
                   lit ''analysis_type'' \<mapsto> Str (lit ''legal''),
                   lit ''content'' \<mapsto>
                     Str (warning_sign @ lit '' Analysis failed: '' @ message e),
                   lit ''error'' \<mapsto> Str (message e)], \<sigma>')
           else (Inl e, \<sigma>')))"

definition NegotiationAgent_prompt :: "str \<Rightarrow> str" where
  "NegotiationAgent_prompt contract_text =
     lit ''Analyze this contract for negotiation opportunities briefly:\<newline>\<newline>''
     @ take 8000 contract_text
     @ lit ''\<newline>\<newline>Provide a short, readable summary of negotiation points.''"

definition NegotiationAgent_analyze ::
  "'s arun \<Rightarrow> str \<Rightarrow> 's \<Rightarrow> (exception + result) \<times> 's" where
  "NegotiationAgent_analyze arun contract_text \<sigma> =
     (let prompt = NegotiationAgent_prompt contract_text in
      case arun Negotiation prompt \<sigma> of
        (Inr response, \<sigma>') \<Rightarrow>
          (Inr [lit ''agent'' \<mapsto> Str (lit ''Negotiation Agent''),
                lit ''analysis_type'' \<mapsto> Str (lit ''negotiation''),
                lit ''content'' \<mapsto> content response,
                lit ''run_id'' \<mapsto>
                  (if truthy (run_id response) then Str (py_str (run_id response))
                   else PyNone)], \<sigma>')
      | (Inl e, \<sigma>') \<Rightarrow>
          (if isinstance_Exception e then
             (Inr [lit ''agent'' \<mapsto> Str (lit ''Negotiation Agent''),
                   lit ''analysis_type'' \<mapsto> Str (lit ''negotiation''),
                   lit ''content'' \<mapsto>
                     Str (warning_sign @ lit '' Analysis failed: '' @ message e),
                   lit ''error'' \<mapsto> Str (message e)], \<sigma>')
           else (Inl e, \<sigma>')))"

section \<open>agents/manager\_agent.py\<close>

definition ManagerAgent_structure_analysis :: "aggregated \<Rightarrow> pyval" where
  "ManagerAgent_structure_analysis agent_results =
     dict_get (dict_get agent_results (lit ''structure'') Map.empty) (lit ''content'')
       (Str (lit ''No structural analysis available''))"

definition ManagerAgent_legal_analysis :: "aggregated \<Rightarrow> pyval" where
  "ManagerAgent_legal_analysis agent_results =
     dict_get (dict_get agent_results (lit ''legal'') Map.empty) (lit ''content'')
       (Str (lit ''No legal analysis available''))"

definition ManagerAgent_negotiation_analysis :: "aggregated \<Rightarrow> pyval" where
  "ManagerAgent_negotiation_analysis agent_results =
     dict_get (dict_get agent_results (lit ''negotiation'') Map.empty) (lit ''content'')
       (Str (lit ''No negotiation analysis available''))"

definition ManagerAgent_prompt :: "aggregated \<Rightarrow> str" where
  "ManagerAgent_prompt agent_results =
     (let structure_analysis = ManagerAgent_structure_analysis agent_results;
          legal_analysis = ManagerAgent_legal_analysis agent_results;
          negotiation_analysis = ManagerAgent_negotiation_analysis agent_results in
      lit ''Consolidate these agent findings into a brief executive summary:\<newline>\<newline>**Structure Analysis:**\<newline>''
      @ py_str structure_analysis
      @ lit ''\<newline>\<newline>**Legal Analysis:**\<newline>''
      @ py_str legal_analysis
      @ lit ''\<newline>\<newline>**Negotiation Analysis:**\<newline>''
      @ py_str negotiation_analysis
      @ lit ''\<newline>\<newline>Provide a short, actionable summary with your recommendation.'')"

definition ManagerAgent_analyze ::
  "'s arun \<Rightarrow> aggregated \<Rightarrow> 's \<Rightarrow> (exception + result) \<times> 's" where
  "ManagerAgent_analyze arun agent_results \<sigma> =
     (let prompt = ManagerAgent_prompt agent_results in
      case arun Manager prompt \<sigma> of
        (Inr response, \<sigma>') \<Rightarrow>
          (Inr [lit ''agent'' \<mapsto> Str (lit ''Manager Agent''),
                lit ''analysis_type'' \<mapsto> Str (lit ''consolidated''),
                lit ''content'' \<mapsto> content response,
                lit ''run_id'' \<mapsto>
                  (if truthy (run_id response) then Str (py_str (run_id response))
                   else PyNone)], \<sigma>')
      | (Inl e, \<sigma>') \<Rightarrow>
          (if isinstance_Exception e then
             (Inr [lit ''agent'' \<mapsto> Str (lit ''Manager Agent''),
                   lit ''analysis_type'' \<mapsto> Str (lit ''consolidated''),
                   lit ''content'' \<mapsto>
                     Str (warning_sign @ lit '' Consolidation failed: '' @ message e),
                   lit ''error'' \<mapsto> Str (message e)], \<sigma>')
           else (Inl e, \<sigma>')))"

section \<open>utils/document\_processor.py\<close>

text \<open>
  The parsers (\<open>PyPDF2.PdfReader\<close>, \<open>docx.Document\<close>) and the string methods \<open>lower\<close>
  and \<open>strip\<close> belong to libraries outside the repository and are parameters.
  \<open>PdfReader\<close> gives the text \<open>extract_text()\<close> yields for each page, \<open>Document\<close> the
  paragraph texts and, for each table, the cell texts of its rows; both may raise.
\<close>

type_synonym byte = "8 word"

record docx_document =
  paragraphs :: "str list"
  tables :: "str list list list"

record library =
  str_lower :: "str \<Rightarrow> str"
  str_strip :: "str \<Rightarrow> str"
  PdfReader :: "byte list \<Rightarrow> exception + str list"
  Document :: "byte list \<Rightarrow> exception + docx_document"

record uploaded_file =
  file_read :: "byte list"
  file_name :: str
  file_type :: str

text \<open>\<open>sep.join(parts)\<close>, \<open>s.endswith(suffix)\<close> and \<open>sub in s\<close>.\<close>

fun join :: "str \<Rightarrow> str list \<Rightarrow> str" where
  "join sep [] = []"
| "join sep [x] = x"
| "join sep (x # y # ys) = x @ sep @ join sep (y # ys)"

definition endswith :: "str \<Rightarrow> str \<Rightarrow> bool" where
  "endswith s suffix =
     (length suffix \<le> length s \<and> drop (length s - length suffix) s = suffix)"

fun str_contains :: "str \<Rightarrow> str \<Rightarrow> bool" where
  "str_contains sub [] = (sub = [])"
| "str_contains sub (c # s) = (take (length sub) (c # s) = sub \<or> str_contains sub s)"

definition extract_text_from_pdf :: "library \<Rightarrow> byte list \<Rightarrow> exception + str" where
  "extract_text_from_pdf lib file_bytes =
     (case PdfReader lib file_bytes of
        Inl e \<Rightarrow> Inl e
      | Inr pages \<Rightarrow>
          (let text_parts = filter (\<lambda>page_text. page_text \<noteq> []) pages in
           Inr (join (lit ''\<newline>\<newline>'') text_parts)))"

definition extract_text_from_docx :: "library \<Rightarrow> byte list \<Rightarrow> exception + str" where
  "extract_text_from_docx lib file_bytes =
     (case Document lib file_bytes of
        Inl e \<Rightarrow> Inl e
      | Inr doc \<Rightarrow>
          (let paragraph_parts = filter (\<lambda>text. str_strip lib text \<noteq> []) (paragraphs doc);
               row_part = (\<lambda>row.
                 let row_text = map (str_strip lib)
                                  (filter (\<lambda>cell. str_strip lib cell \<noteq> []) row) in
                 if row_text \<noteq> [] then [join (lit '' | '') row_text] else []);
               table_parts = concat (map (\<lambda>table. concat (map row_part table)) (tables doc));
               text_parts = paragraph_parts @ table_parts in
           Inr (join (lit ''\<newline>\<newline>'') text_parts)))"

text \<open>The two tests of the entry point, on the lowercased name and the declared MIME type.\<close>

definition declared_pdf :: "library \<Rightarrow> uploaded_file \<Rightarrow> bool" where
  "declared_pdf lib f =
     (endswith (str_lower lib (file_name f)) (lit ''.pdf'')
      \<or> str_contains (lit ''pdf'') (file_type f))"

definition declared_docx :: "library \<Rightarrow> uploaded_file \<Rightarrow> bool" where
  "declared_docx lib f =
     (endswith (str_lower lib (file_name f)) (lit ''.docx'')
      \<or> str_contains (lit ''wordprocessingml'') (file_type f))"

definition unsupported_file_type :: "str \<Rightarrow> exception" where
  "unsupported_file_type ftype =
     Raised True (lit ''ValueError'')
       (lit ''Unsupported file type: '' @ ftype @ lit ''. Please upload a PDF or DOCX file.'')"

definition extract_text_from_file :: "library \<Rightarrow> uploaded_file \<Rightarrow> exception + str" where
  "extract_text_from_file lib f =
     (let file_bytes = file_read f in
      if declared_pdf lib f then extract_text_from_pdf lib file_bytes
      else if declared_docx lib f then extract_text_from_docx lib file_bytes
      else Inl (unsupported_file_type (file_type f)))"

text \<open>A library instance for ASCII input, used to run the entry point on examples.\<close>

definition ascii_library :: library where
  "ascii_library =
     \<lparr>str_lower = map (\<lambda>c. if 65 \<le> c \<and> c \<le> 90 then c + 32 else c),
      str_strip = (\<lambda>s. rev (dropWhile (\<lambda>c. c = 32) (rev (dropWhile (\<lambda>c. c = 32) s)))),
      PdfReader = (\<lambda>b. Inr [lit ''page one'', [], lit ''page two'']),
      Document = (\<lambda>b. Inr \<lparr>paragraphs = [lit ''clause''], tables = []\<rparr>)\<rparr>"

section \<open>telegram\_bot.py and app.py: the two-phase run\<close>

text \<open>
  \<open>asyncio.gather\<close> runs the three \<open>analyze\<close> coroutines concurrently. Each suspends at
  its external call only, so a run of phase 1 is fixed by the order in which the three
  calls are served: \<open>order\<close> lists the tasks in that order. \<open>gather\<close> hands back the results
  by argument position once all three tasks have returned, propagates the first exception
  a task raises, and never returns while a task has not completed (\<open>None\<close>).
\<close>

datatype task = StructureTask | LegalTask | NegotiationTask









section \<open>Stub services\<close>

text \<open>
  Stubs of the external service, whose state counts the calls served. \<open>stub_ok\<close> answers
  every prompt with \<open>stub-ok\<close>; \<open>stub_legal_timeout\<close> raises a \<open>TimeoutError\<close> for the
  legal agent only, \<open>stub_legal_cancelled\<close> an \<open>asyncio.CancelledError\<close>, which is not an
  instance of \<open>Exception\<close>; \<open>stub_quota\<close> raises a rate-limit error for the third call
  it serves, whichever agent makes it.
\<close>

definition stub_ok :: "nat arun" where
  "stub_ok w prompt n = (Inr \<lparr>content = Str (lit ''stub-ok''), run_id = PyNone\<rparr>, Suc n)"

definition stub_legal_timeout :: "nat arun" where
  "stub_legal_timeout w prompt n =
     (if w = Legal then Inl (Raised True (lit ''TimeoutError'') (lit ''timed out''))
      else Inr \<lparr>content = Str (lit ''stub-ok''), run_id = PyNone\<rparr>, Suc n)"

definition stub_legal_cancelled :: "nat arun" where
  "stub_legal_cancelled w prompt n =
     (if w = Legal then Inl (Raised False (lit ''CancelledError'') [])
      else Inr \<lparr>content = Str (lit ''stub-ok''), run_id = PyNone\<rparr>, Suc n)"



section \<open>The result contract of an agent\<close>

text \<open>An outcome of the external call that the handler does not catch.\<close>

definition propagated :: "exception + response \<Rightarrow> bool" where
  "propagated outcome =
     (case outcome of Inl e \<Rightarrow> \<not> isinstance_Exception e | Inr _ \<Rightarrow> False)"

text \<open>
  What one \<open>analyze\<close> call does with the outcome of its external call. After a return the
  call returns a result whose content is the generated text, with no \<open>error\<close> key. After a
  raise of an instance of \<open>Exception\<close> it returns a result whose content is the notice
  followed by the exception's message and whose \<open>error\<close> is the message. Any other raise
  leaves the call as it came.
\<close>

definition fail_soft :: "str \<Rightarrow> (exception + response) \<Rightarrow> (exception + result) \<Rightarrow> bool" where
  "fail_soft notice outcome res =
     (case outcome of
        Inr resp \<Rightarrow>
          (case res of
             Inl _ \<Rightarrow> False
           | Inr r \<Rightarrow> r (lit ''content'') = Some (content resp)
                      \<and> r (lit ''error'') = None)
      | Inl e \<Rightarrow>
          (if isinstance_Exception e then
             (case res of
                Inl _ \<Rightarrow> False
              | Inr r \<Rightarrow> r (lit ''content'') = Some (Str (notice @ message e))
                         \<and> r (lit ''error'') = Some (Str (message e)))
           else res = Inl e))"

text \<open>The two constant keys of a result.\<close>

definition has_tags :: "string \<Rightarrow> string \<Rightarrow> result \<Rightarrow> bool" where
  "has_tags name kind r =
     (r (lit ''agent'') = Some (Str (lit name))
      \<and> r (lit ''analysis_type'') = Some (Str (lit kind)))"

text \<open>
  Every result returned carries the two keys, and no result is returned only when the
  external call raised outside \<open>Exception\<close>.
\<close>

definition tagged ::
  "string \<Rightarrow> string \<Rightarrow> (exception + response) \<Rightarrow> (exception + result) \<Rightarrow> bool" where
  "tagged name kind outcome res =
     (case res of
        Inr r \<Rightarrow> has_tags name kind r
      | Inl e \<Rightarrow> outcome = Inl e \<and> propagated outcome)"

section \<open>Runs observed and services compared\<close>

text \<open>The agent a phase-1 task calls, the prompt it sends and its key in the mapping.\<close>

fun task_worker :: "task \<Rightarrow> worker" where
  "task_worker StructureTask = Structure"
| "task_worker LegalTask = Legal"
| "task_worker NegotiationTask = Negotiation"


fun task_key :: "task \<Rightarrow> str" where
  "task_key StructureTask = lit ''structure''"
| "task_key LegalTask = lit ''legal''"
| "task_key NegotiationTask = lit ''negotiation''"








section \<open>Literals\<close>

lemma lit_eq_iff [simp]: "lit a = lit b \<longleftrightarrow> a = b"
  unfolding lit_def by (simp add: inj_on_def)

lemma lit_append: "lit (a @ b) = lit a @ lit b"
  by (simp add: lit_def)

lemma length_lit [simp]: "length (lit a) = length a"
  by (simp add: lit_def)

lemma lit_Nil_iff [simp]: "lit a = [] \<longleftrightarrow> a = []" "[] = lit a \<longleftrightarrow> a = []"
  by (auto simp add: lit_def)

section \<open>Agents: fail-soft conversion and constant tags\<close>

text \<open>
  C2, as stated, fails: the handlers are \<open>except Exception\<close>, so when the external call
  raises outside \<open>Exception\<close>, here an \<open>asyncio.CancelledError\<close>, \<open>analyze\<close> raises it to
  its caller and returns no result.
\<close>

theorem analyze_fail_soft_counterexample:
  "fst (stub_legal_cancelled Legal (LegalFrameworkAgent_prompt (lit ''lease'')) 0)
     = Inl (Raised False (lit ''CancelledError'') [])
   \<and> fst (LegalFrameworkAgent_analyze stub_legal_cancelled (lit ''lease'') 0)
     = Inl (Raised False (lit ''CancelledError'') [])"
  by (simp add: LegalFrameworkAgent_analyze_def stub_legal_cancelled_def)

text \<open>
  C2, amended. Whatever the text, the service and its state, for each of the four
  \<open>analyze\<close> methods: when the external call returned, \<open>analyze\<close> returns a result whose
  content is the response's content and which has no \<open>error\<close> key; when the call raised
  an instance \<open>e\<close> of \<open>Exception\<close>, \<open>analyze\<close> returns a result whose content is the
  failure notice followed by \<open>str(e)\<close> and whose \<open>error\<close> is \<open>str(e)\<close>; when the call
  raised anything else, \<open>analyze\<close> raises it to its caller.
\<close>

theorem analyze_fail_soft:
  "fail_soft (warning_sign @ lit '' Analysis failed: '')
     (fst (arun Structure (ContractStructureAgent_prompt t) \<sigma>))
     (fst (ContractStructureAgent_analyze arun t \<sigma>))
   \<and> fail_soft (warning_sign @ lit '' Analysis failed: '')
     (fst (arun Legal (LegalFrameworkAgent_prompt t) \<sigma>))
     (fst (LegalFrameworkAgent_analyze arun t \<sigma>))
   \<and> fail_soft (warning_sign @ lit '' Analysis failed: '')
     (fst (arun Negotiation (NegotiationAgent_prompt t) \<sigma>))
     (fst (NegotiationAgent_analyze arun t \<sigma>))
   \<and> fail_soft (warning_sign @ lit '' Consolidation failed: '')
     (fst (arun Manager (ManagerAgent_prompt ar) \<sigma>))
     (fst (ManagerAgent_analyze arun ar \<sigma>))"
  by (simp add: fail_soft_def ContractStructureAgent_analyze_def
      LegalFrameworkAgent_analyze_def NegotiationAgent_analyze_def
      ManagerAgent_analyze_def split: prod.splits sum.splits)

theorem analyze_fail_soft_witness:
  "fst (LegalFrameworkAgent_analyze stub_legal_timeout (lit ''lease'') 0)
     = Inr [lit ''agent'' \<mapsto> Str (lit ''Legal Framework Agent''),
            lit ''analysis_type'' \<mapsto> Str (lit ''legal''),
            lit ''content'' \<mapsto> Str (warning_sign @ lit '' Analysis failed: '' @ lit ''timed out''),
            lit ''error'' \<mapsto> Str (lit ''timed out'')]
   \<and> fail_soft (warning_sign @ lit '' Analysis failed: '')
        (Inl (Raised True (lit ''TimeoutError'') (lit ''timed out'')))
        (fst (LegalFrameworkAgent_analyze stub_legal_timeout (lit ''lease'') 0))
   \<and> fail_soft (warning_sign @ lit '' Consolidation failed: '')
        (Inr \<lparr>content = Str (lit ''stub-ok''), run_id = PyNone\<rparr>)
        (fst (ManagerAgent_analyze stub_legal_timeout Map.empty 0))"
  using analyze_fail_soft [of stub_legal_timeout "lit ''lease''" 0 Map.empty]
  by (simp add: stub_legal_timeout_def LegalFrameworkAgent_analyze_def)

text \<open>
  C9. Every result an \<open>analyze\<close> method returns, after a return of the external call as
  after a raise it converts, has the keys \<open>agent\<close> and \<open>analysis_type\<close>, and their
  values depend on the agent class only; the method returns no result only when the
  external call raised outside \<open>Exception\<close>.
\<close>

theorem analyze_tagged:
  "tagged ''Contract Structure Agent'' ''structural''
     (fst (arun Structure (ContractStructureAgent_prompt t) \<sigma>))
     (fst (ContractStructureAgent_analyze arun t \<sigma>))
   \<and> tagged ''Legal Framework Agent'' ''legal''
     (fst (arun Legal (LegalFrameworkAgent_prompt t) \<sigma>))
     (fst (LegalFrameworkAgent_analyze arun t \<sigma>))
   \<and> tagged ''Negotiation Agent'' ''negotiation''
     (fst (arun Negotiation (NegotiationAgent_prompt t) \<sigma>))
     (fst (NegotiationAgent_analyze arun t \<sigma>))
   \<and> tagged ''Manager Agent'' ''consolidated''
     (fst (arun Manager (ManagerAgent_prompt ar) \<sigma>))
     (fst (ManagerAgent_analyze arun ar \<sigma>))"
  by (simp add: tagged_def has_tags_def propagated_def ContractStructureAgent_analyze_def
      LegalFrameworkAgent_analyze_def NegotiationAgent_analyze_def
      ManagerAgent_analyze_def split: prod.splits sum.splits)

theorem analyze_tagged_witness:
  "has_tags ''Legal Framework Agent'' ''legal''
     (projr (fst (LegalFrameworkAgent_analyze stub_legal_timeout (lit ''lease'') 0)))
   \<and> has_tags ''Manager Agent'' ''consolidated''
     (projr (fst (ManagerAgent_analyze stub_legal_timeout Map.empty 0)))"
  using analyze_tagged [of stub_legal_timeout "lit ''lease''" 0 Map.empty]
  by (simp add: tagged_def stub_legal_timeout_def LegalFrameworkAgent_analyze_def
      ManagerAgent_analyze_def)

lemma ManagerAgent_prompt_length:
  "length (ManagerAgent_prompt ar) =
       length (py_str (ManagerAgent_structure_analysis ar))
       + length (py_str (ManagerAgent_legal_analysis ar))
       + length (py_str (ManagerAgent_negotiation_analysis ar)) + 203"
  by (simp add: ManagerAgent_prompt_def)

section \<open>Phase-1 prompts: the 8000-character excerpt\<close>

text \<open>
  C4. For a document text of more than 8000 characters, the prompt of each of the three
  phase-1 agents is its fixed header, the first 8000 characters of the text and its fixed
  footer: the excerpt has length 8000 and is not the whole text, and the agent behaves on
  the text exactly as on its first 8000 characters, whatever the service.
\<close>

theorem phase1_prompt_truncated:
  assumes "8000 < length t"
  shows "ContractStructureAgent_prompt t =
           lit ''Analyze this contract's structure briefly:\<newline>\<newline>''
           @ take 8000 t
           @ lit ''\<newline>\<newline>Provide a short, readable summary of the document structure.''
       \<and> LegalFrameworkAgent_prompt t =
           lit ''Analyze this contract for legal risks briefly:\<newline>\<newline>''
           @ take 8000 t
           @ lit ''\<newline>\<newline>Provide a short, readable summary of legal concerns.''
       \<and> NegotiationAgent_prompt t =
           lit ''Analyze this contract for negotiation opportunities briefly:\<newline>\<newline>''
           @ take 8000 t
           @ lit ''\<newline>\<newline>Provide a short, readable summary of negotiation points.''
       \<and> length (take 8000 t) = 8000 \<and> take 8000 t \<noteq> t
       \<and> length (ContractStructureAgent_prompt t) = 8106
       \<and> length (LegalFrameworkAgent_prompt t) = 8102
       \<and> length (NegotiationAgent_prompt t) = 8120
       \<and> ContractStructureAgent_analyze arun t \<sigma> = ContractStructureAgent_analyze arun (take 8000 t) \<sigma>
       \<and> LegalFrameworkAgent_analyze arun t \<sigma> = LegalFrameworkAgent_analyze arun (take 8000 t) \<sigma>
       \<and> NegotiationAgent_analyze arun t \<sigma> = NegotiationAgent_analyze arun (take 8000 t) \<sigma>"
proof -
  have neq: "take 8000 t \<noteq> t"
  proof
    assume "take 8000 t = t"
    then have "length (take 8000 t) = length t" by simp
    with assms show False by simp
  qed
  have len: "length (take 8000 t) = 8000" using assms by simp
  show ?thesis using neq len
    by (simp add: ContractStructureAgent_prompt_def LegalFrameworkAgent_prompt_def
        NegotiationAgent_prompt_def ContractStructureAgent_analyze_def
        LegalFrameworkAgent_analyze_def NegotiationAgent_analyze_def)
qed

theorem phase1_prompt_truncated_witness:
  "8000 < length (replicate 8001 (97::nat))
   \<and> ContractStructureAgent_prompt (replicate 8001 97) =
           lit ''Analyze this contract's structure briefly:\<newline>\<newline>''
           @ replicate 8000 97
           @ lit ''\<newline>\<newline>Provide a short, readable summary of the document structure.''
   \<and> length (LegalFrameworkAgent_prompt (replicate 8001 97)) = 8102"
  using phase1_prompt_truncated [where t = "replicate 8001 97" and arun = stub_ok and \<sigma> = 0] by simp

section \<open>Manager: placeholders and prompt\<close>

text \<open>
  C5, as stated, fails: an entry whose \<open>content\<close> is the empty string or \<open>None\<close> is not
  replaced by the placeholder, and the empty or null value reaches the prompt.
\<close>

theorem manager_placeholder_counterexample:
  "ManagerAgent_structure_analysis [lit ''structure'' \<mapsto> [lit ''content'' \<mapsto> Str []]] = Str []
   \<and> ManagerAgent_legal_analysis [lit ''legal'' \<mapsto> [lit ''content'' \<mapsto> PyNone]] = PyNone
   \<and> ManagerAgent_structure_analysis [lit ''structure'' \<mapsto> [lit ''content'' \<mapsto> Str []]]
       \<noteq> Str (lit ''No structural analysis available'')
   \<and> ManagerAgent_prompt [lit ''structure'' \<mapsto> [lit ''content'' \<mapsto> Str []]] =
       lit ''Consolidate these agent findings into a brief executive summary:\<newline>\<newline>**Structure Analysis:**\<newline>''
       @ []
       @ lit ''\<newline>\<newline>**Legal Analysis:**\<newline>No legal analysis available\<newline>\<newline>**Negotiation Analysis:**\<newline>No negotiation analysis available\<newline>\<newline>Provide a short, actionable summary with your recommendation.''"
  by (simp add: ManagerAgent_structure_analysis_def ManagerAgent_legal_analysis_def
      ManagerAgent_negotiation_analysis_def ManagerAgent_prompt_def dict_get_def
      flip: lit_append)

text \<open>
  C5, amended. When the entry of a section is absent from the mapping, or present without
  a \<open>content\<close> key, the manager's input for the section is the fixed placeholder of
  that section; a \<open>content\<close> value that is present is passed on unchanged.
\<close>

theorem manager_placeholder:
  "((ar (lit ''structure'') = None \<or> (\<exists>r. ar (lit ''structure'') = Some r \<and> r (lit ''content'') = None))
      \<longrightarrow> ManagerAgent_structure_analysis ar = Str (lit ''No structural analysis available''))
   \<and> ((ar (lit ''legal'') = None \<or> (\<exists>r. ar (lit ''legal'') = Some r \<and> r (lit ''content'') = None))
      \<longrightarrow> ManagerAgent_legal_analysis ar = Str (lit ''No legal analysis available''))
   \<and> ((ar (lit ''negotiation'') = None \<or> (\<exists>r. ar (lit ''negotiation'') = Some r \<and> r (lit ''content'') = None))
      \<longrightarrow> ManagerAgent_negotiation_analysis ar = Str (lit ''No negotiation analysis available''))
   \<and> (\<forall>r v. ar (lit ''structure'') = Some r \<and> r (lit ''content'') = Some v
      \<longrightarrow> ManagerAgent_structure_analysis ar = v)
   \<and> (\<forall>r v. ar (lit ''legal'') = Some r \<and> r (lit ''content'') = Some v
      \<longrightarrow> ManagerAgent_legal_analysis ar = v)
   \<and> (\<forall>r v. ar (lit ''negotiation'') = Some r \<and> r (lit ''content'') = Some v
      \<longrightarrow> ManagerAgent_negotiation_analysis ar = v)"
  by (auto simp add: ManagerAgent_structure_analysis_def ManagerAgent_legal_analysis_def
      ManagerAgent_negotiation_analysis_def dict_get_def)

theorem manager_placeholder_witness:
  "ManagerAgent_structure_analysis [lit ''legal'' \<mapsto> [lit ''agent'' \<mapsto> Str (lit ''Legal Framework Agent'')]]
     = Str (lit ''No structural analysis available'')
   \<and> ManagerAgent_legal_analysis [lit ''legal'' \<mapsto> [lit ''agent'' \<mapsto> Str (lit ''Legal Framework Agent'')]]
     = Str (lit ''No legal analysis available'')
   \<and> ManagerAgent_negotiation_analysis [lit ''negotiation'' \<mapsto> [lit ''content'' \<mapsto> Str (lit ''stub-ok'')]]
     = Str (lit ''stub-ok'')"
  using manager_placeholder [of "[lit ''legal'' \<mapsto> [lit ''agent'' \<mapsto> Str (lit ''Legal Framework Agent'')]]"]
    manager_placeholder [of "[lit ''negotiation'' \<mapsto> [lit ''content'' \<mapsto> Str (lit ''stub-ok'')]]"]
  by simp

text \<open>
  C6. For every mapping the manager's prompt is the fixed template with the three inputs
  inserted whole: a string content appears verbatim, the length of the prompt is the sum
  of the lengths of the three inputs plus the 203 characters of the template, and no
  bound holds for the length of the prompt.
\<close>

theorem manager_prompt_untruncated:
  "ManagerAgent_prompt ar =
       lit ''Consolidate these agent findings into a brief executive summary:\<newline>\<newline>**Structure Analysis:**\<newline>''
       @ py_str (ManagerAgent_structure_analysis ar)
       @ lit ''\<newline>\<newline>**Legal Analysis:**\<newline>''
       @ py_str (ManagerAgent_legal_analysis ar)
       @ lit ''\<newline>\<newline>**Negotiation Analysis:**\<newline>''
       @ py_str (ManagerAgent_negotiation_analysis ar)
       @ lit ''\<newline>\<newline>Provide a short, actionable summary with your recommendation.''
   \<and> length (ManagerAgent_prompt ar) =
       length (py_str (ManagerAgent_structure_analysis ar))
       + length (py_str (ManagerAgent_legal_analysis ar))
       + length (py_str (ManagerAgent_negotiation_analysis ar)) + 203
   \<and> (\<forall>rs rl rn s l n.
          ar (lit ''structure'') = Some rs \<and> rs (lit ''content'') = Some (Str s)
          \<and> ar (lit ''legal'') = Some rl \<and> rl (lit ''content'') = Some (Str l)
          \<and> ar (lit ''negotiation'') = Some rn \<and> rn (lit ''content'') = Some (Str n)
        \<longrightarrow> ManagerAgent_prompt ar =
             lit ''Consolidate these agent findings into a brief executive summary:\<newline>\<newline>**Structure Analysis:**\<newline>''
             @ s @ lit ''\<newline>\<newline>**Legal Analysis:**\<newline>''
             @ l @ lit ''\<newline>\<newline>**Negotiation Analysis:**\<newline>''
             @ n @ lit ''\<newline>\<newline>Provide a short, actionable summary with your recommendation.'')
   \<and> (\<forall>bound. \<exists>ar'. bound < length (ManagerAgent_prompt ar'))"
proof -
  have unbounded: "\<exists>ar'. bound < length (ManagerAgent_prompt ar')" for bound
  proof
    show "bound < length (ManagerAgent_prompt
            [lit ''structure'' \<mapsto> [lit ''content'' \<mapsto> Str (replicate (Suc bound) 97)]])"
      by (simp add: ManagerAgent_prompt_length ManagerAgent_structure_analysis_def dict_get_def)
  qed
  have verbatim: "ManagerAgent_prompt ar =
             lit ''Consolidate these agent findings into a brief executive summary:\<newline>\<newline>**Structure Analysis:**\<newline>''
             @ s @ lit ''\<newline>\<newline>**Legal Analysis:**\<newline>''
             @ l @ lit ''\<newline>\<newline>**Negotiation Analysis:**\<newline>''
             @ n @ lit ''\<newline>\<newline>Provide a short, actionable summary with your recommendation.''"
    if "ar (lit ''structure'') = Some rs" "rs (lit ''content'') = Some (Str s)"
      and "ar (lit ''legal'') = Some rl" "rl (lit ''content'') = Some (Str l)"
      and "ar (lit ''negotiation'') = Some rn" "rn (lit ''content'') = Some (Str n)"
    for rs rl rn s l n
    using that
    by (simp add: ManagerAgent_prompt_def ManagerAgent_structure_analysis_def
        ManagerAgent_legal_analysis_def ManagerAgent_negotiation_analysis_def dict_get_def)
  have shape: "ManagerAgent_prompt ar =
       lit ''Consolidate these agent findings into a brief executive summary:\<newline>\<newline>**Structure Analysis:**\<newline>''
       @ py_str (ManagerAgent_structure_analysis ar)
       @ lit ''\<newline>\<newline>**Legal Analysis:**\<newline>''
       @ py_str (ManagerAgent_legal_analysis ar)
       @ lit ''\<newline>\<newline>**Negotiation Analysis:**\<newline>''
       @ py_str (ManagerAgent_negotiation_analysis ar)
       @ lit ''\<newline>\<newline>Provide a short, actionable summary with your recommendation.''"
    by (simp add: ManagerAgent_prompt_def)
  from shape ManagerAgent_prompt_length verbatim unbounded show ?thesis by blast
qed


theorem manager_prompt_untruncated_witness:
  "ManagerAgent_prompt [lit ''structure'' \<mapsto> [lit ''content'' \<mapsto> Str (lit ''A'')],
                        lit ''legal'' \<mapsto> [lit ''content'' \<mapsto> Str (lit ''B'')],
                        lit ''negotiation'' \<mapsto> [lit ''content'' \<mapsto> Str (lit ''C'')]] =
     lit ''Consolidate these agent findings into a brief executive summary:\<newline>\<newline>**Structure Analysis:**\<newline>''
     @ lit ''A'' @ lit ''\<newline>\<newline>**Legal Analysis:**\<newline>''
     @ lit ''B'' @ lit ''\<newline>\<newline>**Negotiation Analysis:**\<newline>''
     @ lit ''C'' @ lit ''\<newline>\<newline>Provide a short, actionable summary with your recommendation.''"
  by (rule manager_prompt_untruncated
      [of "[lit ''structure'' \<mapsto> [lit ''content'' \<mapsto> Str (lit ''A'')],
            lit ''legal'' \<mapsto> [lit ''content'' \<mapsto> Str (lit ''B'')],
            lit ''negotiation'' \<mapsto> [lit ''content'' \<mapsto> Str (lit ''C'')]]",
        THEN conjunct2, THEN conjunct2, THEN conjunct1, rule_format,
        of "[lit ''content'' \<mapsto> Str (lit ''A'')]" _ "[lit ''content'' \<mapsto> Str (lit ''B'')]" _
           "[lit ''content'' \<mapsto> Str (lit ''C'')]"])
    simp


section \<open>Text extraction: routing by declared type\<close>

lemma declared_pdf_parsers [simp]:
  "declared_pdf (lib\<lparr>PdfReader := P\<rparr>) f = declared_pdf lib f"
  "declared_pdf (lib\<lparr>Document := D\<rparr>) f = declared_pdf lib f"
  by (simp_all add: declared_pdf_def)

lemma declared_docx_parsers [simp]:
  "declared_docx (lib\<lparr>PdfReader := P\<rparr>) f = declared_docx lib f"
  "declared_docx (lib\<lparr>Document := D\<rparr>) f = declared_docx lib f"
  by (simp_all add: declared_docx_def)

text \<open>
  C7. The entry point fails with its \<open>ValueError\<close> for an unsupported type, whatever the
  two parsers would do (they are not called), exactly when neither the PDF test nor the
  DOCX test holds of the lowercased name and the MIME type. When the PDF test holds the
  result is the PDF extraction of the bytes, and when only the DOCX test holds it is the
  DOCX extraction.
\<close>

theorem extract_unsupported_exactly:
  "((\<forall>P D. extract_text_from_file (lib\<lparr>PdfReader := P, Document := D\<rparr>) f
            = Inl (unsupported_file_type (file_type f)))
      \<longleftrightarrow> (\<not> declared_pdf lib f \<and> \<not> declared_docx lib f))
   \<and> (\<not> declared_pdf lib f \<and> \<not> declared_docx lib f
        \<longrightarrow> extract_text_from_file lib f = Inl (unsupported_file_type (file_type f))
            \<and> cls (unsupported_file_type (file_type f)) = lit ''ValueError'')
   \<and> (declared_pdf lib f
        \<longrightarrow> extract_text_from_file lib f = extract_text_from_pdf lib (file_read f))
   \<and> (\<not> declared_pdf lib f \<and> declared_docx lib f
        \<longrightarrow> extract_text_from_file lib f = extract_text_from_docx lib (file_read f))"
proof -
  have only_if: "\<not> declared_pdf lib f \<and> \<not> declared_docx lib f"
    if all: "\<forall>P D. extract_text_from_file (lib\<lparr>PdfReader := P, Document := D\<rparr>) f
                   = Inl (unsupported_file_type (file_type f))"
  proof (rule ccontr)
    assume "\<not> (\<not> declared_pdf lib f \<and> \<not> declared_docx lib f)"
    then have typed: "declared_pdf lib f \<or> declared_docx lib f" by blast
    from all have "extract_text_from_file
        (lib\<lparr>PdfReader := (\<lambda>b. Inr []), Document := (\<lambda>b. Inr \<lparr>paragraphs = [], tables = []\<rparr>)\<rparr>) f
        = Inl (unsupported_file_type (file_type f))" by blast
    with typed show False
      by (auto simp add: extract_text_from_file_def extract_text_from_pdf_def
          extract_text_from_docx_def Let_def split: if_splits)
  qed
  have "if": "extract_text_from_file (lib\<lparr>PdfReader := P, Document := D\<rparr>) f
               = Inl (unsupported_file_type (file_type f))"
    if "\<not> declared_pdf lib f \<and> \<not> declared_docx lib f" for P D
    using that by (simp add: extract_text_from_file_def)
  have rest: "(\<not> declared_pdf lib f \<and> \<not> declared_docx lib f
        \<longrightarrow> extract_text_from_file lib f = Inl (unsupported_file_type (file_type f))
            \<and> cls (unsupported_file_type (file_type f)) = lit ''ValueError'')
   \<and> (declared_pdf lib f
        \<longrightarrow> extract_text_from_file lib f = extract_text_from_pdf lib (file_read f))
   \<and> (\<not> declared_pdf lib f \<and> declared_docx lib f
        \<longrightarrow> extract_text_from_file lib f = extract_text_from_docx lib (file_read f))"
    by (simp add: extract_text_from_file_def unsupported_file_type_def)
  from only_if "if" rest show ?thesis by blast
qed

theorem extract_unsupported_exactly_witness:
  "extract_text_from_file ascii_library
      \<lparr>file_read = [], file_name = lit ''notes.TXT'', file_type = lit ''text/plain''\<rparr>
     = Inl (Raised True (lit ''ValueError'')
         (lit ''Unsupported file type: text/plain. Please upload a PDF or DOCX file.''))
   \<and> extract_text_from_file ascii_library
      \<lparr>file_read = [], file_name = lit ''Lease.PDF'', file_type = lit ''application/octet-stream''\<rparr>
     = Inr (lit ''page one\<newline>\<newline>page two'')
   \<and> extract_text_from_file ascii_library
      \<lparr>file_read = [], file_name = lit ''lease.docx'', file_type = lit ''application/octet-stream''\<rparr>
     = Inr (lit ''clause'')"
  using extract_unsupported_exactly [of ascii_library
      "\<lparr>file_read = [], file_name = lit ''notes.TXT'', file_type = lit ''text/plain''\<rparr>"]
    extract_unsupported_exactly [of ascii_library
      "\<lparr>file_read = [], file_name = lit ''Lease.PDF'', file_type = lit ''application/octet-stream''\<rparr>"]
    extract_unsupported_exactly [of ascii_library
      "\<lparr>file_read = [], file_name = lit ''lease.docx'', file_type = lit ''application/octet-stream''\<rparr>"]
  by (simp add: declared_pdf_def declared_docx_def ascii_library_def endswith_def lit_def
      unsupported_file_type_def extract_text_from_pdf_def extract_text_from_docx_def)

text \<open>
  C10. The PDF test comes first: when it holds, the result is the PDF extraction and does
  not depend on the DOCX parser, also when the DOCX test holds as well; the DOCX parser
  has an influence on the result exactly when the PDF test fails and the DOCX test holds.
\<close>

theorem extract_pdf_precedence:
  "(declared_pdf lib f \<longrightarrow>
      extract_text_from_file lib f = extract_text_from_pdf lib (file_read f)
      \<and> (\<forall>D. extract_text_from_file (lib\<lparr>Document := D\<rparr>) f = extract_text_from_file lib f))
   \<and> ((\<exists>D D'. extract_text_from_file (lib\<lparr>Document := D\<rparr>) f
               \<noteq> extract_text_from_file (lib\<lparr>Document := D'\<rparr>) f)
        \<longleftrightarrow> \<not> declared_pdf lib f \<and> declared_docx lib f)"
proof -
  have pdf: "extract_text_from_file lib f = extract_text_from_pdf lib (file_read f)
      \<and> (\<forall>D. extract_text_from_file (lib\<lparr>Document := D\<rparr>) f = extract_text_from_file lib f)"
    if "declared_pdf lib f"
    using that by (simp add: extract_text_from_file_def extract_text_from_pdf_def)
  have docx_only: "\<not> declared_pdf lib f \<and> declared_docx lib f"
    if "extract_text_from_file (lib\<lparr>Document := D\<rparr>) f
          \<noteq> extract_text_from_file (lib\<lparr>Document := D'\<rparr>) f" for D D'
    using that
    by (auto simp add: extract_text_from_file_def extract_text_from_pdf_def Let_def
        split: if_splits)
  have docx_reached: "extract_text_from_file (lib\<lparr>Document := (\<lambda>b. Inr \<lparr>paragraphs = [], tables = []\<rparr>)\<rparr>) f
          \<noteq> extract_text_from_file (lib\<lparr>Document := (\<lambda>b. Inl (Raised True [] []))\<rparr>) f"
    if "\<not> declared_pdf lib f \<and> declared_docx lib f"
    using that by (simp add: extract_text_from_file_def extract_text_from_docx_def)
  from pdf docx_only docx_reached show ?thesis by blast
qed

theorem extract_pdf_precedence_witness:
  "declared_pdf ascii_library
      \<lparr>file_read = [], file_name = lit ''lease.docx'', file_type = lit ''application/pdf''\<rparr>
   \<and> declared_docx ascii_library
      \<lparr>file_read = [], file_name = lit ''lease.docx'', file_type = lit ''application/pdf''\<rparr>
   \<and> extract_text_from_file ascii_library
      \<lparr>file_read = [], file_name = lit ''lease.docx'', file_type = lit ''application/pdf''\<rparr>
     = Inr (lit ''page one\<newline>\<newline>page two'')"
  using extract_pdf_precedence [of ascii_library
      "\<lparr>file_read = [], file_name = lit ''lease.docx'', file_type = lit ''application/pdf''\<rparr>"]
  by (simp add: declared_pdf_def declared_docx_def ascii_library_def endswith_def lit_def
      extract_text_from_pdf_def)

section \<open>The two-phase run\<close>








lemma task_worker_not_Manager [simp]: "task_worker t \<noteq> Manager" "Manager \<noteq> task_worker t"
  by (cases t; simp)+

lemma agent_results_key:
  "[lit ''structure'' \<mapsto> a, lit ''legal'' \<mapsto> b, lit ''negotiation'' \<mapsto> c] (task_key u) =
     Some (case u of StructureTask \<Rightarrow> a | LegalTask \<Rightarrow> b | NegotiationTask \<Rightarrow> c)"
  by (cases u) simp_all






section \<open>Fan-in before the manager\<close>







section \<open>One failing agent\<close>









section \<open>Two runs against a deterministic stub\<close>








end
